theory Spec2Isabelle
  imports Main "HOL-Library.Word"
begin

section \<open>Standalone transaction validation (package types, validtransaction.go)\<close>

text \<open>
  The rules of validtransaction.go decide whether a transaction is valid outside of the
  context of a consensus set. Each rule returns a Go \<^verbatim>\<open>error\<close>; here a rule returns
  \<open>error option\<close>, with \<open>None\<close> for \<^verbatim>\<open>nil\<close>.
\<close>

subsection \<open>Errors\<close>

text \<open>
  The error values declared in the \<^verbatim>\<open>var\<close> block of the file, one constructor each.
  \<open>ErrExternal\<close> stands for an error value declared elsewhere (the signature rules return
  such values), named by its message.
\<close>

datatype error =
    ErrDoubleSpend
  | ErrFileContractOutputSumViolation
  | ErrFileContractWindowEndViolation
  | ErrFileContractWindowStartViolation
  | ErrNonZeroClaimStart
  | ErrNonZeroRevision
  | ErrStorageProofWithOutputs
  | ErrTimelockNotSatisfied
  | ErrTransactionTooLarge
  | ErrZeroMinerFee
  | ErrZeroOutput
  | ErrZeroRevision
  | ErrInvalidFoundationUpdateEncoding
  | ErrUninitializedFoundationUpdate
  | ErrExternal string

subsection \<open>Data model\<close>

text \<open>
  The types are declared in other files of the package; the fields are the ones the rules
  read, plus the revision numbers. \<^verbatim>\<open>Currency\<close> is an arbitrary-precision non-negative
  integer (\<open>nat\<close>: \<^verbatim>\<open>Add\<close> is exact addition, \<^verbatim>\<open>IsZero\<close> is \<open>= 0\<close>, \<^verbatim>\<open>Cmp\<close> compares).
  \<^verbatim>\<open>BlockHeight\<close> is an unsigned 64-bit integer; the rules only compare heights. The
  identifiers and unlock hashes are 32-byte arrays, modelled as 256-bit words, so that the
  zero value of the array is the word \<open>0\<close>.
\<close>

type_synonym Currency = nat
type_synonym BlockHeight = "64 word"
type_synonym Hash256 = "256 word"
type_synonym byte = "8 word"

record UnlockConditions =
  uc_Timelock :: BlockHeight
  uc_PublicKeys :: "byte list list"
  uc_SignaturesRequired :: "64 word"

record TurtleDexcoinInput =
  sci_ParentID :: Hash256
  sci_UnlockConditions :: UnlockConditions

record TurtleDexcoinOutput =
  sco_Value :: Currency
  sco_UnlockHash :: Hash256

record FileContract =
  fc_WindowStart :: BlockHeight
  fc_WindowEnd :: BlockHeight
  fc_Payout :: Currency
  fc_ValidProofOutputs :: "TurtleDexcoinOutput list"
  fc_MissedProofOutputs :: "TurtleDexcoinOutput list"
  fc_RevisionNumber :: "64 word"

record FileContractRevision =
  fcr_ParentID :: Hash256
  fcr_UnlockConditions :: UnlockConditions
  fcr_NewRevisionNumber :: "64 word"
  fcr_NewWindowStart :: BlockHeight
  fcr_NewWindowEnd :: BlockHeight
  fcr_NewValidProofOutputs :: "TurtleDexcoinOutput list"
  fcr_NewMissedProofOutputs :: "TurtleDexcoinOutput list"

record StorageProof =
  sp_ParentID :: Hash256
  sp_ProofData :: "byte list"

record TurtleDexfundInput =
  sfi_ParentID :: Hash256
  sfi_UnlockConditions :: UnlockConditions

record TurtleDexfundOutput =
  sfo_Value :: Currency
  sfo_UnlockHash :: Hash256
  sfo_ClaimStart :: Currency

record Transaction =
  TurtleDexcoinInputs :: "TurtleDexcoinInput list"
  TurtleDexcoinOutputs :: "TurtleDexcoinOutput list"
  FileContracts :: "FileContract list"
  FileContractRevisions :: "FileContractRevision list"
  StorageProofs :: "StorageProof list"
  TurtleDexfundInputs :: "TurtleDexfundInput list"
  TurtleDexfundOutputs :: "TurtleDexfundOutput list"
  MinerFees :: "Currency list"
  ArbitraryData :: "byte list list"

record FoundationUnlockHashUpdate =
  NewPrimary :: Hash256
  NewFailsafe :: Hash256

text \<open>
  What the rules use and the file does not define: the network constants, the tax function
  \<^verbatim>\<open>PostTax\<close>, the size of the canonical encoding \<^verbatim>\<open>MarshalTurtleDexSize\<close>, the decoder
  \<^verbatim>\<open>encoding.Unmarshal\<close> at the type \<^verbatim>\<open>FoundationUnlockHashUpdate\<close> (\<open>None\<close> when it
  returns an error) and the method \<^verbatim>\<open>validSignatures\<close>. They are parameters of every rule.
  The sizes and size limits are \<open>nat\<close>: the size is a non-negative \<^verbatim>\<open>int\<close> converted to
  \<^verbatim>\<open>uint64\<close>, and \<^verbatim>\<open>BlockSizeLimit-5e3\<close> is a constant expression, computed exactly
  (with a limit below 5000 the Go file would not compile; the subtraction on \<open>nat\<close> gives
  0 there).
\<close>

record params =
  BlockSizeLimit :: nat
  OakHardforkBlock :: BlockHeight
  OakHardforkTxnSizeLimit :: nat
  FoundationHardforkHeight :: BlockHeight
  SpecifierFoundation :: "byte list"
  PostTax :: "BlockHeight \<Rightarrow> Currency \<Rightarrow> Currency"
  MarshalTurtleDexSize :: "Transaction \<Rightarrow> nat"
  Unmarshal :: "byte list \<Rightarrow> FoundationUnlockHashUpdate option"
  validSignatures :: "Transaction \<Rightarrow> BlockHeight \<Rightarrow> error option"

text \<open>
  \<^verbatim>\<open>Specifier\<close> is an array of \<^verbatim>\<open>SpecifierLen\<close> bytes, so the slice
  \<^verbatim>\<open>SpecifierFoundation[:]\<close> has that length.
\<close>

definition SpecifierLen :: "params \<Rightarrow> nat" where
  "SpecifierLen p = length (SpecifierFoundation p)"

subsection \<open>The rules\<close>

text \<open>The accumulation \<^verbatim>\<open>sum = sum.Add(output.Value)\<close> over a slice of outputs.\<close>

fun sumOutputs :: "Currency \<Rightarrow> TurtleDexcoinOutput list \<Rightarrow> Currency" where
  "sumOutputs acc [] = acc"
| "sumOutputs acc (output # rest) = sumOutputs (acc + sco_Value output) rest"

text \<open>\<^verbatim>\<open>correctFileContracts\<close>: the loop over \<^verbatim>\<open>t.FileContracts\<close>.\<close>

fun correctFileContracts_loop :: "params \<Rightarrow> BlockHeight \<Rightarrow> FileContract list \<Rightarrow> error option" where
  "correctFileContracts_loop p currentHeight [] = None"
| "correctFileContracts_loop p currentHeight (fc # fcs) =
     (if fc_WindowStart fc \<le> currentHeight then Some ErrFileContractWindowStartViolation
      else if fc_WindowEnd fc \<le> fc_WindowStart fc then Some ErrFileContractWindowEndViolation
      else
        let validProofOutputSum = sumOutputs 0 (fc_ValidProofOutputs fc);
            missedProofOutputSum = sumOutputs 0 (fc_MissedProofOutputs fc);
            outputPortion = PostTax p currentHeight (fc_Payout fc)
        in if validProofOutputSum \<noteq> outputPortion then Some ErrFileContractOutputSumViolation
           else if missedProofOutputSum \<noteq> outputPortion then Some ErrFileContractOutputSumViolation
           else correctFileContracts_loop p currentHeight fcs)"

definition correctFileContracts :: "params \<Rightarrow> Transaction \<Rightarrow> BlockHeight \<Rightarrow> error option" where
  "correctFileContracts p t currentHeight =
     correctFileContracts_loop p currentHeight (FileContracts t)"

text \<open>\<^verbatim>\<open>correctFileContractRevisions\<close>: the loop over \<^verbatim>\<open>t.FileContractRevisions\<close>.\<close>

fun correctFileContractRevisions_loop :: "BlockHeight \<Rightarrow> FileContractRevision list \<Rightarrow> error option" where
  "correctFileContractRevisions_loop currentHeight [] = None"
| "correctFileContractRevisions_loop currentHeight (fcr # fcrs) =
     (if fcr_NewWindowStart fcr \<le> currentHeight then Some ErrFileContractWindowStartViolation
      else if fcr_NewWindowEnd fcr \<le> fcr_NewWindowStart fcr then Some ErrFileContractWindowEndViolation
      else
        let validProofOutputSum = sumOutputs 0 (fcr_NewValidProofOutputs fcr);
            missedProofOutputSum = sumOutputs 0 (fcr_NewMissedProofOutputs fcr)
        in if validProofOutputSum \<noteq> missedProofOutputSum then Some ErrFileContractOutputSumViolation
           else correctFileContractRevisions_loop currentHeight fcrs)"

definition correctFileContractRevisions :: "Transaction \<Rightarrow> BlockHeight \<Rightarrow> error option" where
  "correctFileContractRevisions t currentHeight =
     correctFileContractRevisions_loop currentHeight (FileContractRevisions t)"

text \<open>
  \<^verbatim>\<open>correctArbitraryData\<close>. \<^verbatim>\<open>bytes.HasPrefix\<close> is \<open>prefix\<close> on lists, written out with
  \<open>take\<close>; the slice \<^verbatim>\<open>arb[SpecifierLen:]\<close> is taken only when the prefix test has
  succeeded, so it is in range and equals \<open>drop\<close>.
\<close>

definition HasPrefix :: "byte list \<Rightarrow> byte list \<Rightarrow> bool" where
  "HasPrefix s pre = (length pre \<le> length s \<and> take (length pre) s = pre)"

fun correctArbitraryData_loop :: "params \<Rightarrow> byte list list \<Rightarrow> error option" where
  "correctArbitraryData_loop p [] = None"
| "correctArbitraryData_loop p (arb # arbs) =
     (if HasPrefix arb (SpecifierFoundation p) then
        (case Unmarshal p (drop (SpecifierLen p) arb) of
           None \<Rightarrow> Some ErrInvalidFoundationUpdateEncoding
         | Some update \<Rightarrow>
             if NewPrimary update = 0 \<or> NewFailsafe update = 0
             then Some ErrUninitializedFoundationUpdate
             else correctArbitraryData_loop p arbs)
      else correctArbitraryData_loop p arbs)"

definition correctArbitraryData :: "params \<Rightarrow> Transaction \<Rightarrow> BlockHeight \<Rightarrow> error option" where
  "correctArbitraryData p t currentHeight =
     (if currentHeight < FoundationHardforkHeight p then None
      else correctArbitraryData_loop p (ArbitraryData t))"

text \<open>\<^verbatim>\<open>fitsInABlock\<close>.\<close>

definition fitsInABlock :: "params \<Rightarrow> Transaction \<Rightarrow> BlockHeight \<Rightarrow> error option" where
  "fitsInABlock p t currentHeight =
     (let size = MarshalTurtleDexSize p t in
      if size > BlockSizeLimit p - 5000 then Some ErrTransactionTooLarge
      else if currentHeight \<ge> OakHardforkBlock p then
        (if size > OakHardforkTxnSizeLimit p then Some ErrTransactionTooLarge else None)
      else None)"

text \<open>\<^verbatim>\<open>followsMinimumValues\<close>: four loops, one after the other.\<close>

fun minimumValues_outputs :: "TurtleDexcoinOutput list \<Rightarrow> error option" where
  "minimumValues_outputs [] = None"
| "minimumValues_outputs (sco # scos) =
     (if sco_Value sco = 0 then Some ErrZeroOutput else minimumValues_outputs scos)"

fun minimumValues_contracts :: "FileContract list \<Rightarrow> error option" where
  "minimumValues_contracts [] = None"
| "minimumValues_contracts (fc # fcs) =
     (if fc_Payout fc = 0 then Some ErrZeroOutput else minimumValues_contracts fcs)"

fun minimumValues_fundOutputs :: "TurtleDexfundOutput list \<Rightarrow> error option" where
  "minimumValues_fundOutputs [] = None"
| "minimumValues_fundOutputs (sfo # sfos) =
     (if \<not> (sfo_ClaimStart sfo = 0) then Some ErrNonZeroClaimStart
      else if sfo_Value sfo = 0 then Some ErrZeroOutput
      else minimumValues_fundOutputs sfos)"

fun minimumValues_fees :: "Currency list \<Rightarrow> error option" where
  "minimumValues_fees [] = None"
| "minimumValues_fees (fee # fees) =
     (if fee = 0 then Some ErrZeroMinerFee else minimumValues_fees fees)"

definition followsMinimumValues :: "Transaction \<Rightarrow> error option" where
  "followsMinimumValues t =
     (case minimumValues_outputs (TurtleDexcoinOutputs t) of
        Some err \<Rightarrow> Some err
      | None \<Rightarrow>
     (case minimumValues_contracts (FileContracts t) of
        Some err \<Rightarrow> Some err
      | None \<Rightarrow>
     (case minimumValues_fundOutputs (TurtleDexfundOutputs t) of
        Some err \<Rightarrow> Some err
      | None \<Rightarrow> minimumValues_fees (MinerFees t))))"

text \<open>\<^verbatim>\<open>followsStorageProofRules\<close>.\<close>

definition followsStorageProofRules :: "Transaction \<Rightarrow> error option" where
  "followsStorageProofRules t =
     (if length (StorageProofs t) = 0 then None
      else if length (TurtleDexcoinOutputs t) \<noteq> 0 then Some ErrStorageProofWithOutputs
      else if length (FileContracts t) \<noteq> 0 then Some ErrStorageProofWithOutputs
      else if length (FileContractRevisions t) \<noteq> 0 then Some ErrStorageProofWithOutputs
      else if length (TurtleDexfundOutputs t) \<noteq> 0 then Some ErrStorageProofWithOutputs
      else None)"

text \<open>
  \<^verbatim>\<open>noRepeats\<close>. A Go map to \<^verbatim>\<open>struct{}\<close> is a map to \<open>unit\<close>. Each loop reads the
  parent ID of every element in order, returns \<^verbatim>\<open>ErrDoubleSpend\<close> when the ID is already a
  key of the map and stores it otherwise; the loop returns the map it has built, because the
  loops over the storage proofs and over the revisions fill the same map
  \<^verbatim>\<open>doneFileContracts\<close>.
\<close>

fun noRepeats_loop :: "(Hash256 \<rightharpoonup> unit) \<Rightarrow> Hash256 list \<Rightarrow> error + (Hash256 \<rightharpoonup> unit)" where
  "noRepeats_loop seen [] = Inr seen"
| "noRepeats_loop seen (parentID # rest) =
     (if seen parentID \<noteq> None then Inl ErrDoubleSpend
      else noRepeats_loop (seen(parentID \<mapsto> ())) rest)"

definition noRepeats :: "Transaction \<Rightarrow> error option" where
  "noRepeats t =
     (case noRepeats_loop Map.empty (map sci_ParentID (TurtleDexcoinInputs t)) of
        Inl err \<Rightarrow> Some err
      | Inr ttdcInputs \<Rightarrow>
     (case noRepeats_loop Map.empty (map sp_ParentID (StorageProofs t)) of
        Inl err \<Rightarrow> Some err
      | Inr doneFileContracts \<Rightarrow>
     (case noRepeats_loop doneFileContracts (map fcr_ParentID (FileContractRevisions t)) of
        Inl err \<Rightarrow> Some err
      | Inr doneFileContracts' \<Rightarrow>
     (case noRepeats_loop Map.empty (map sfi_ParentID (TurtleDexfundInputs t)) of
        Inl err \<Rightarrow> Some err
      | Inr siafundInputs \<Rightarrow> None))))"

text \<open>
  \<^verbatim>\<open>validUnlockConditions\<close>, the function on one \<^verbatim>\<open>UnlockConditions\<close>, and the method of
  the same name on a transaction (here \<open>Transaction_validUnlockConditions\<close>).
\<close>

definition validUnlockConditions :: "UnlockConditions \<Rightarrow> BlockHeight \<Rightarrow> error option" where
  "validUnlockConditions uc currentHeight =
     (if uc_Timelock uc > currentHeight then Some ErrTimelockNotSatisfied else None)"

fun validUnlockConditions_loop :: "BlockHeight \<Rightarrow> UnlockConditions list \<Rightarrow> error option" where
  "validUnlockConditions_loop currentHeight [] = None"
| "validUnlockConditions_loop currentHeight (uc # ucs) =
     (case validUnlockConditions uc currentHeight of
        Some err \<Rightarrow> Some err
      | None \<Rightarrow> validUnlockConditions_loop currentHeight ucs)"

definition Transaction_validUnlockConditions :: "Transaction \<Rightarrow> BlockHeight \<Rightarrow> error option" where
  "Transaction_validUnlockConditions t currentHeight =
     (case validUnlockConditions_loop currentHeight
             (map sci_UnlockConditions (TurtleDexcoinInputs t)) of
        Some err \<Rightarrow> Some err
      | None \<Rightarrow>
     (case validUnlockConditions_loop currentHeight
             (map fcr_UnlockConditions (FileContractRevisions t)) of
        Some err \<Rightarrow> Some err
      | None \<Rightarrow>
        validUnlockConditions_loop currentHeight
          (map sfi_UnlockConditions (TurtleDexfundInputs t))))"

text \<open>\<^verbatim>\<open>StandaloneValid\<close>: the nine calls in the order of the source, each followed by
  \<^verbatim>\<open>if err != nil { return }\<close>.\<close>

definition StandaloneValid :: "params \<Rightarrow> Transaction \<Rightarrow> BlockHeight \<Rightarrow> error option" where
  "StandaloneValid p t currentHeight =
     (case fitsInABlock p t currentHeight of Some err \<Rightarrow> Some err | None \<Rightarrow>
     (case followsStorageProofRules t of Some err \<Rightarrow> Some err | None \<Rightarrow>
     (case noRepeats t of Some err \<Rightarrow> Some err | None \<Rightarrow>
     (case followsMinimumValues t of Some err \<Rightarrow> Some err | None \<Rightarrow>
     (case correctFileContracts p t currentHeight of Some err \<Rightarrow> Some err | None \<Rightarrow>
     (case correctFileContractRevisions t currentHeight of Some err \<Rightarrow> Some err | None \<Rightarrow>
     (case correctArbitraryData p t currentHeight of Some err \<Rightarrow> Some err | None \<Rightarrow>
     (case Transaction_validUnlockConditions t currentHeight of Some err \<Rightarrow> Some err | None \<Rightarrow>
      validSignatures p t currentHeight))))))))"

subsection \<open>Notions used to state the properties\<close>

text \<open>The first non-nil error of a sequence of verdicts.\<close>

fun first_error :: "error option list \<Rightarrow> error option" where
  "first_error [] = None"
| "first_error (None # rest) = first_error rest"
| "first_error (Some err # rest) = Some err"

text \<open>The verdicts of the nine rules, listed in the order in which \<^verbatim>\<open>StandaloneValid\<close>
  calls them.\<close>

definition rule_chain :: "params \<Rightarrow> Transaction \<Rightarrow> BlockHeight \<Rightarrow> error option list" where
  "rule_chain p t h =
     [fitsInABlock p t h,
      followsStorageProofRules t,
      noRepeats t,
      followsMinimumValues t,
      correctFileContracts p t h,
      correctFileContractRevisions t h,
      correctArbitraryData p t h,
      Transaction_validUnlockConditions t h,
      validSignatures p t h]"

text \<open>
  The order of the specification, sections 4.1 to 4.9: size, file contracts, file contract
  revisions, arbitrary data, minimum values, storage proofs, no repeats, unlock conditions,
  signatures; and the validator that would run the rules in that order.
\<close>

definition spec_section_chain :: "params \<Rightarrow> Transaction \<Rightarrow> BlockHeight \<Rightarrow> error option list" where
  "spec_section_chain p t h =
     [fitsInABlock p t h,
      correctFileContracts p t h,
      correctFileContractRevisions t h,
      correctArbitraryData p t h,
      followsMinimumValues t,
      followsStorageProofRules t,
      noRepeats t,
      Transaction_validUnlockConditions t h,
      validSignatures p t h]"

definition StandaloneValid_spec_order :: "params \<Rightarrow> Transaction \<Rightarrow> BlockHeight \<Rightarrow> error option" where
  "StandaloneValid_spec_order p t h = first_error (spec_section_chain p t h)"

text \<open>The sum of the values of a sequence of outputs.\<close>

definition output_sum :: "TurtleDexcoinOutput list \<Rightarrow> Currency" where
  "output_sum outputs = sum_list (map sco_Value outputs)"

text \<open>
  The verdict on one file contract in the words of the specification: the window start
  must exceed the current height, the window end must exceed the window start, and both
  output sums must equal the post-tax payout.
\<close>

definition fileContract_verdict :: "params \<Rightarrow> BlockHeight \<Rightarrow> FileContract \<Rightarrow> error option" where
  "fileContract_verdict p h fc =
     (if fc_WindowStart fc \<le> h then Some ErrFileContractWindowStartViolation
      else if fc_WindowEnd fc \<le> fc_WindowStart fc then Some ErrFileContractWindowEndViolation
      else if output_sum (fc_ValidProofOutputs fc) = PostTax p h (fc_Payout fc)
            \<and> output_sum (fc_MissedProofOutputs fc) = PostTax p h (fc_Payout fc) then None
      else Some ErrFileContractOutputSumViolation)"

text \<open>
  The verdict on one revision in the words of the specification: the same window checks on
  the new window, and the two new output sums equal to each other.
\<close>

definition revision_verdict :: "BlockHeight \<Rightarrow> FileContractRevision \<Rightarrow> error option" where
  "revision_verdict h fcr =
     (if fcr_NewWindowStart fcr \<le> h then Some ErrFileContractWindowStartViolation
      else if fcr_NewWindowEnd fcr \<le> fcr_NewWindowStart fcr then Some ErrFileContractWindowEndViolation
      else if output_sum (fcr_NewValidProofOutputs fcr) = output_sum (fcr_NewMissedProofOutputs fcr)
      then None
      else Some ErrFileContractOutputSumViolation)"

text \<open>
  The verdict on one arbitrary-data entry in the words of the specification: an entry that
  begins with the Foundation specifier must decode, and to an update with two non-void
  addresses; any other entry is ignored.
\<close>

definition arbitraryData_verdict :: "params \<Rightarrow> byte list \<Rightarrow> error option" where
  "arbitraryData_verdict p arb =
     (if HasPrefix arb (SpecifierFoundation p) then
        (case Unmarshal p (drop (length (SpecifierFoundation p)) arb) of
           None \<Rightarrow> Some ErrInvalidFoundationUpdateEncoding
         | Some update \<Rightarrow>
             if NewPrimary update = 0 \<or> NewFailsafe update = 0
             then Some ErrUninitializedFoundationUpdate else None)
      else None)"

text \<open>
  The verdicts of the minimum-values rule on the single elements, and the sequence of
  these verdicts in the order in which the rule scans a transaction: the coin outputs, the
  file contract payouts, the fund outputs (on each, the claim start before the value), the
  miner fees.
\<close>

definition coinOutput_verdict :: "TurtleDexcoinOutput \<Rightarrow> error option" where
  "coinOutput_verdict sco = (if sco_Value sco = 0 then Some ErrZeroOutput else None)"

definition payout_verdict :: "FileContract \<Rightarrow> error option" where
  "payout_verdict fc = (if fc_Payout fc = 0 then Some ErrZeroOutput else None)"

definition fundOutput_verdict :: "TurtleDexfundOutput \<Rightarrow> error option" where
  "fundOutput_verdict sfo =
     (if sfo_ClaimStart sfo \<noteq> 0 then Some ErrNonZeroClaimStart
      else if sfo_Value sfo = 0 then Some ErrZeroOutput
      else None)"

definition minerFee_verdict :: "Currency \<Rightarrow> error option" where
  "minerFee_verdict fee = (if fee = 0 then Some ErrZeroMinerFee else None)"

definition minimumValues_scan :: "Transaction \<Rightarrow> error option list" where
  "minimumValues_scan t =
     map coinOutput_verdict (TurtleDexcoinOutputs t)
     @ map payout_verdict (FileContracts t)
     @ map fundOutput_verdict (TurtleDexfundOutputs t)
     @ map minerFee_verdict (MinerFees t)"


subsection \<open>Sample parameters and transactions\<close>

text \<open>
  A parameter set on which the rules can be evaluated: size limits and hardfork heights of
  a realistic magnitude, the sixteen-byte specifier that spells "foundation", a tax of a
  tenth of the payout (post-tax 90 for a payout of 100), a size function that counts the
  elements of the transaction, a decoder of two-byte payloads, and a signature check that
  accepts everything.
\<close>

definition sample_size :: "Transaction \<Rightarrow> nat" where
  "sample_size t =
     length (TurtleDexcoinInputs t) + length (TurtleDexcoinOutputs t) + length (FileContracts t)
     + length (FileContractRevisions t) + length (StorageProofs t)
     + length (TurtleDexfundInputs t) + length (TurtleDexfundOutputs t)
     + length (MinerFees t) + length (concat (ArbitraryData t))"

definition sample_decode :: "byte list \<Rightarrow> FoundationUnlockHashUpdate option" where
  "sample_decode bs =
     (case bs of
        [a, b] \<Rightarrow> Some \<lparr>NewPrimary = ucast a, NewFailsafe = ucast b\<rparr>
      | _ \<Rightarrow> None)"

definition sample_params :: params where
  "sample_params =
     \<lparr>BlockSizeLimit = 2000000,
      OakHardforkBlock = 135000,
      OakHardforkTxnSizeLimit = 64000,
      FoundationHardforkHeight = 298000,
      SpecifierFoundation = [102, 111, 117, 110, 100, 97, 116, 105, 111, 110, 0, 0, 0, 0, 0, 0],
      PostTax = (\<lambda>h payout. payout - payout div 10),
      MarshalTurtleDexSize = sample_size,
      Unmarshal = sample_decode,
      validSignatures = (\<lambda>t h. None)\<rparr>"

definition emptyTxn :: Transaction where
  "emptyTxn =
     \<lparr>TurtleDexcoinInputs = [], TurtleDexcoinOutputs = [], FileContracts = [],
      FileContractRevisions = [], StorageProofs = [], TurtleDexfundInputs = [],
      TurtleDexfundOutputs = [], MinerFees = [], ArbitraryData = []\<rparr>"

definition coinOutput :: "Currency \<Rightarrow> TurtleDexcoinOutput" where
  "coinOutput v = \<lparr>sco_Value = v, sco_UnlockHash = 0\<rparr>"

definition fileContract ::
  "BlockHeight \<Rightarrow> BlockHeight \<Rightarrow> Currency \<Rightarrow> Currency list \<Rightarrow> Currency list \<Rightarrow> FileContract" where
  "fileContract ws we payout valid missed =
     \<lparr>fc_WindowStart = ws, fc_WindowEnd = we, fc_Payout = payout,
      fc_ValidProofOutputs = map coinOutput valid,
      fc_MissedProofOutputs = map coinOutput missed,
      fc_RevisionNumber = 0\<rparr>"

definition noConditions :: UnlockConditions where
  "noConditions = \<lparr>uc_Timelock = 0, uc_PublicKeys = [], uc_SignaturesRequired = 0\<rparr>"

definition revision ::
  "Hash256 \<Rightarrow> BlockHeight \<Rightarrow> BlockHeight \<Rightarrow> Currency list \<Rightarrow> Currency list \<Rightarrow> FileContractRevision" where
  "revision parent ws we valid missed =
     \<lparr>fcr_ParentID = parent, fcr_UnlockConditions = noConditions, fcr_NewRevisionNumber = 1,
      fcr_NewWindowStart = ws, fcr_NewWindowEnd = we,
      fcr_NewValidProofOutputs = map coinOutput valid,
      fcr_NewMissedProofOutputs = map coinOutput missed\<rparr>"

definition storageProof :: "Hash256 \<Rightarrow> StorageProof" where
  "storageProof parent = \<lparr>sp_ParentID = parent, sp_ProofData = []\<rparr>"

definition coinInput :: "Hash256 \<Rightarrow> TurtleDexcoinInput" where
  "coinInput parent = \<lparr>sci_ParentID = parent, sci_UnlockConditions = noConditions\<rparr>"

definition fundInput :: "Hash256 \<Rightarrow> TurtleDexfundInput" where
  "fundInput parent = \<lparr>sfi_ParentID = parent, sfi_UnlockConditions = noConditions\<rparr>"

definition fundOutput :: "Currency \<Rightarrow> Currency \<Rightarrow> TurtleDexfundOutput" where
  "fundOutput v claimStart = \<lparr>sfo_Value = v, sfo_UnlockHash = 0, sfo_ClaimStart = claimStart\<rparr>"

text \<open>An arbitrary-data entry that begins with the Foundation specifier.\<close>

definition foundationUpdate :: "byte list \<Rightarrow> byte list" where
  "foundationUpdate payload = SpecifierFoundation sample_params @ payload"

text \<open>A transaction that violates two rules: its coin output has value zero (minimum
  values) and the window of its file contract starts at height 5 (file contracts, at any
  height from 5 on).\<close>

definition txn_two_violations :: Transaction where
  "txn_two_violations =
     emptyTxn\<lparr>TurtleDexcoinOutputs := [coinOutput 0],
              FileContracts := [fileContract 5 10 100 [90] [90]]\<rparr>"


text \<open>A transaction whose only fund output has value zero and claim start 3.\<close>

definition txn_zero_fund_value_with_claim :: Transaction where
  "txn_zero_fund_value_with_claim = emptyTxn\<lparr>TurtleDexfundOutputs := [fundOutput 0 3]\<rparr>"




section \<open>Properties\<close>

subsection \<open>The first error of a sequence of verdicts\<close>

lemma first_error_single: "first_error [r] = r"
  by (cases r) simp_all

lemma first_error_None_iff: "first_error rs = None \<longleftrightarrow> (\<forall>r\<in>set rs. r = None)"
  by (induction rs rule: first_error.induct) auto

lemma first_error_least:
  "i < length rs \<Longrightarrow> \<forall>j<i. rs ! j = None \<Longrightarrow> first_error rs = first_error (drop i rs)"
proof (induction rs arbitrary: i rule: first_error.induct)
  case 1
  then show ?case by simp
next
  case (2 rest)
  show ?case
  proof (cases i)
    case 0
    then show ?thesis by simp
  next
    case (Suc k)
    with 2(2,3) have "k < length rest" "\<forall>j<k. rest ! j = None" by auto
    with 2(1) Suc show ?thesis by simp
  qed
next
  case (3 err rest)
  have "i = 0"
  proof (rule ccontr)
    assume "i \<noteq> 0"
    with 3(2) have "(Some err # rest) ! 0 = None" by blast
    then show False by simp
  qed
  then show ?case by simp
qed

lemma first_error_nth:
  assumes "i < length rs" "\<forall>j<i. rs ! j = None" "rs ! i \<noteq> None"
  shows "first_error rs = rs ! i"
proof -
  from assms(1) have d: "drop i rs = rs ! i # drop (Suc i) rs"
    by (simp add: Cons_nth_drop_Suc)
  from assms(3) obtain e where "rs ! i = Some e" by auto
  with d first_error_least[OF assms(1,2)] show ?thesis by simp
qed

subsection \<open>The order of the rules in StandaloneValid\<close>

lemma StandaloneValid_first_error: "StandaloneValid p t h = first_error (rule_chain p t h)"
  by (simp add: StandaloneValid_def rule_chain_def first_error_single split: option.splits)

text \<open>
  C1, as the code has it. \<open>StandaloneValid\<close> returns the first non-nil error of the rules
  taken in the order fitsInABlock, followsStorageProofRules, noRepeats,
  followsMinimumValues, correctFileContracts, correctFileContractRevisions,
  correctArbitraryData, validUnlockConditions, validSignatures: when a rule of that list
  fails and every rule before it in that list succeeds, the verdict is the error of that
  rule, whatever the later rules say.
\<close>

theorem StandaloneValid_rule_order:
  "StandaloneValid p t h = first_error (rule_chain p t h)
   \<and> (\<forall>i<length (rule_chain p t h).
        (\<forall>j<i. rule_chain p t h ! j = None) \<longrightarrow> rule_chain p t h ! i \<noteq> None \<longrightarrow>
        StandaloneValid p t h = rule_chain p t h ! i)"
  using first_error_nth[of _ "rule_chain p t h"] StandaloneValid_first_error[of p t h] by simp

text \<open>
  At height 5 the sample transaction with two violations fails the minimum-values rule
  (fourth in the list) and the file-contract rule (fifth); the verdict is the error of the
  fourth.
\<close>

theorem StandaloneValid_rule_order_witness:
  "StandaloneValid sample_params txn_two_violations 5 = Some ErrZeroOutput"
proof -
  let ?c = "rule_chain sample_params txn_two_violations 5"
  have c: "?c = [None, None, None, Some ErrZeroOutput,
                 Some ErrFileContractWindowStartViolation, None, None, None, None]"
    by (simp add: rule_chain_def sample_params_def txn_two_violations_def emptyTxn_def
        fitsInABlock_def sample_size_def followsStorageProofRules_def noRepeats_def
        followsMinimumValues_def coinOutput_def correctFileContracts_def fileContract_def
        correctFileContractRevisions_def correctArbitraryData_def
        Transaction_validUnlockConditions_def)
  have l: "3 < length ?c" by (simp add: c)
  have n: "\<forall>j<3. ?c ! j = None" by (simp add: c nth_Cons split: nat.splits)
  have s: "?c ! 3 \<noteq> None" by (simp add: c)
  from StandaloneValid_rule_order[of sample_params txn_two_violations 5] l n s
  have "StandaloneValid sample_params txn_two_violations 5 = ?c ! 3" by blast
  then show ?thesis by (simp add: c)
qed

text \<open>
  C1, as the specification states it, fails. In the order of sections 4.1 to 4.9 the
  file-contract rule comes before the minimum-values rule, so the verdict on the sample
  transaction would be the window-start violation; the code returns the zero-output error.
\<close>

theorem StandaloneValid_spec_order_counterexample:
  "correctFileContracts sample_params txn_two_violations 5
     = Some ErrFileContractWindowStartViolation
   \<and> followsMinimumValues txn_two_violations = Some ErrZeroOutput
   \<and> StandaloneValid_spec_order sample_params txn_two_violations 5
     = Some ErrFileContractWindowStartViolation
   \<and> StandaloneValid sample_params txn_two_violations 5 = Some ErrZeroOutput
   \<and> StandaloneValid sample_params txn_two_violations 5
     \<noteq> StandaloneValid_spec_order sample_params txn_two_violations 5"
  by (simp add: StandaloneValid_def StandaloneValid_spec_order_def spec_section_chain_def
      sample_params_def txn_two_violations_def emptyTxn_def fitsInABlock_def sample_size_def
      followsStorageProofRules_def noRepeats_def followsMinimumValues_def coinOutput_def
      correctFileContracts_def fileContract_def)

subsection \<open>File contracts and file contract revisions\<close>

lemma first_error_Some_mem: "first_error rs = Some e \<Longrightarrow> Some e \<in> set rs"
  by (induction rs rule: first_error.induct) auto

lemma sumOutputs_eq: "sumOutputs acc outputs = acc + output_sum outputs"
  by (induction outputs arbitrary: acc) (simp_all add: output_sum_def)

lemma correctFileContracts_loop_eq:
  "correctFileContracts_loop p h fcs = first_error (map (fileContract_verdict p h) fcs)"
  by (induction fcs) (auto simp: fileContract_verdict_def sumOutputs_eq Let_def)

lemma correctFileContractRevisions_loop_eq:
  "correctFileContractRevisions_loop h fcrs = first_error (map (revision_verdict h) fcrs)"
  by (induction fcrs) (auto simp: revision_verdict_def sumOutputs_eq Let_def)

lemma fileContract_verdict_None_iff:
  "fileContract_verdict p h fc = None \<longleftrightarrow>
     h < fc_WindowStart fc \<and> fc_WindowStart fc < fc_WindowEnd fc
     \<and> output_sum (fc_ValidProofOutputs fc) = PostTax p h (fc_Payout fc)
     \<and> output_sum (fc_MissedProofOutputs fc) = PostTax p h (fc_Payout fc)"
  by (auto simp: fileContract_verdict_def not_le)

lemma revision_verdict_None_iff:
  "revision_verdict h fcr = None \<longleftrightarrow>
     h < fcr_NewWindowStart fcr \<and> fcr_NewWindowStart fcr < fcr_NewWindowEnd fcr
     \<and> output_sum (fcr_NewValidProofOutputs fcr) = output_sum (fcr_NewMissedProofOutputs fcr)"
  by (auto simp: revision_verdict_def not_le)

text \<open>
  C2. \<open>correctFileContracts\<close> returns the first error among the verdicts on the file
  contracts, taken in order, where the verdict on one contract is: the window-start
  violation if the window start is at most the current height; otherwise the window-end
  violation if the window end is at most the window start; otherwise the output-sum
  violation unless the exact sums of the valid and of the missed proof outputs both equal
  \<open>PostTax\<close> of the height and the payout. It returns success exactly when every contract
  passes the three checks.
\<close>

theorem correctFileContracts_verdicts:
  "correctFileContracts p t h = first_error (map (fileContract_verdict p h) (FileContracts t))
   \<and> (correctFileContracts p t h = None \<longleftrightarrow>
        (\<forall>fc\<in>set (FileContracts t).
           h < fc_WindowStart fc \<and> fc_WindowStart fc < fc_WindowEnd fc
           \<and> output_sum (fc_ValidProofOutputs fc) = PostTax p h (fc_Payout fc)
           \<and> output_sum (fc_MissedProofOutputs fc) = PostTax p h (fc_Payout fc)))"
  by (simp add: correctFileContracts_def correctFileContracts_loop_eq first_error_None_iff
      fileContract_verdict_None_iff)

text \<open>
  With a post-tax payout of 90 for a payout of 100: valid outputs 60 + 30 and a missed
  output 90 pass; a missed output 89 is an output-sum violation.
\<close>

theorem correctFileContracts_verdicts_witness:
  "correctFileContracts sample_params
     (emptyTxn\<lparr>FileContracts := [fileContract 10 20 100 [60, 30] [90]]\<rparr>) 5 = None
   \<and> correctFileContracts sample_params
     (emptyTxn\<lparr>FileContracts := [fileContract 10 20 100 [60, 30] [89]]\<rparr>) 5
       = Some ErrFileContractOutputSumViolation"
proof -
  let ?ok = "emptyTxn\<lparr>FileContracts := [fileContract 10 20 100 [60, 30] [90]]\<rparr>"
  let ?bad = "emptyTxn\<lparr>FileContracts := [fileContract 10 20 100 [60, 30] [89]]\<rparr>"
  have "\<forall>fc\<in>set (FileContracts ?ok).
           5 < fc_WindowStart fc \<and> fc_WindowStart fc < fc_WindowEnd fc
           \<and> output_sum (fc_ValidProofOutputs fc) = PostTax sample_params 5 (fc_Payout fc)
           \<and> output_sum (fc_MissedProofOutputs fc) = PostTax sample_params 5 (fc_Payout fc)"
    by (simp add: emptyTxn_def fileContract_def coinOutput_def output_sum_def sample_params_def)
  with correctFileContracts_verdicts[of sample_params ?ok 5]
  have a: "correctFileContracts sample_params ?ok 5 = None" by blast
  have "first_error (map (fileContract_verdict sample_params 5) (FileContracts ?bad))
          = Some ErrFileContractOutputSumViolation"
    by (simp add: emptyTxn_def fileContract_def coinOutput_def output_sum_def sample_params_def
        fileContract_verdict_def)
  with correctFileContracts_verdicts[of sample_params ?bad 5]
  have b: "correctFileContracts sample_params ?bad 5 = Some ErrFileContractOutputSumViolation"
    by simp
  from a b show ?thesis by simp
qed

text \<open>
  C3. Neither \<open>correctFileContracts\<close> nor \<open>correctFileContractRevisions\<close> ever returns
  the zero-output error, and a transaction whose contracts (revisions) meet the window and
  sum conditions passes the rule whatever the values of the single proof outputs, zero
  included.
\<close>

theorem zero_output_check_dormant:
  "correctFileContracts p t h \<noteq> Some ErrZeroOutput
   \<and> correctFileContractRevisions t h \<noteq> Some ErrZeroOutput
   \<and> ((\<forall>fc\<in>set (FileContracts t).
           h < fc_WindowStart fc \<and> fc_WindowStart fc < fc_WindowEnd fc
           \<and> output_sum (fc_ValidProofOutputs fc) = PostTax p h (fc_Payout fc)
           \<and> output_sum (fc_MissedProofOutputs fc) = PostTax p h (fc_Payout fc))
        \<longrightarrow> correctFileContracts p t h = None)
   \<and> ((\<forall>fcr\<in>set (FileContractRevisions t).
           h < fcr_NewWindowStart fcr \<and> fcr_NewWindowStart fcr < fcr_NewWindowEnd fcr
           \<and> output_sum (fcr_NewValidProofOutputs fcr) = output_sum (fcr_NewMissedProofOutputs fcr))
        \<longrightarrow> correctFileContractRevisions t h = None)"
proof -
  have 1: "correctFileContracts p t h \<noteq> Some ErrZeroOutput"
  proof
    assume "correctFileContracts p t h = Some ErrZeroOutput"
    then have "first_error (map (fileContract_verdict p h) (FileContracts t)) = Some ErrZeroOutput"
      by (simp add: correctFileContracts_def correctFileContracts_loop_eq)
    then have "Some ErrZeroOutput \<in> set (map (fileContract_verdict p h) (FileContracts t))"
      by (rule first_error_Some_mem)
    then show False by (auto simp: fileContract_verdict_def split: if_splits)
  qed
  have 2: "correctFileContractRevisions t h \<noteq> Some ErrZeroOutput"
  proof
    assume "correctFileContractRevisions t h = Some ErrZeroOutput"
    then have "first_error (map (revision_verdict h) (FileContractRevisions t)) = Some ErrZeroOutput"
      by (simp add: correctFileContractRevisions_def correctFileContractRevisions_loop_eq)
    then have "Some ErrZeroOutput \<in> set (map (revision_verdict h) (FileContractRevisions t))"
      by (rule first_error_Some_mem)
    then show False by (auto simp: revision_verdict_def split: if_splits)
  qed
  have 3: "(\<forall>fc\<in>set (FileContracts t).
           h < fc_WindowStart fc \<and> fc_WindowStart fc < fc_WindowEnd fc
           \<and> output_sum (fc_ValidProofOutputs fc) = PostTax p h (fc_Payout fc)
           \<and> output_sum (fc_MissedProofOutputs fc) = PostTax p h (fc_Payout fc))
        \<longrightarrow> correctFileContracts p t h = None"
    by (simp add: correctFileContracts_def correctFileContracts_loop_eq first_error_None_iff
        fileContract_verdict_None_iff)
  have 4: "(\<forall>fcr\<in>set (FileContractRevisions t).
           h < fcr_NewWindowStart fcr \<and> fcr_NewWindowStart fcr < fcr_NewWindowEnd fcr
           \<and> output_sum (fcr_NewValidProofOutputs fcr) = output_sum (fcr_NewMissedProofOutputs fcr))
        \<longrightarrow> correctFileContractRevisions t h = None"
    by (simp add: correctFileContractRevisions_def correctFileContractRevisions_loop_eq
        first_error_None_iff revision_verdict_None_iff)
  from 1 2 3 4 show ?thesis by blast
qed

text \<open>
  A contract and a revision with zero-value entries in both output lists pass.
\<close>

theorem zero_output_check_dormant_witness:
  "correctFileContracts sample_params
     (emptyTxn\<lparr>FileContracts := [fileContract 10 20 100 [0, 90] [90, 0]]\<rparr>) 5 = None
   \<and> correctFileContractRevisions
     (emptyTxn\<lparr>FileContractRevisions := [revision 7 10 20 [0, 40] [40, 0]]\<rparr>) 5 = None"
proof -
  let ?a = "emptyTxn\<lparr>FileContracts := [fileContract 10 20 100 [0, 90] [90, 0]]\<rparr>"
  let ?b = "emptyTxn\<lparr>FileContractRevisions := [revision 7 10 20 [0, 40] [40, 0]]\<rparr>"
  have a: "\<forall>fc\<in>set (FileContracts ?a).
           5 < fc_WindowStart fc \<and> fc_WindowStart fc < fc_WindowEnd fc
           \<and> output_sum (fc_ValidProofOutputs fc) = PostTax sample_params 5 (fc_Payout fc)
           \<and> output_sum (fc_MissedProofOutputs fc) = PostTax sample_params 5 (fc_Payout fc)"
    by (simp add: emptyTxn_def fileContract_def coinOutput_def output_sum_def sample_params_def)
  have b: "\<forall>fcr\<in>set (FileContractRevisions ?b).
           5 < fcr_NewWindowStart fcr \<and> fcr_NewWindowStart fcr < fcr_NewWindowEnd fcr
           \<and> output_sum (fcr_NewValidProofOutputs fcr) = output_sum (fcr_NewMissedProofOutputs fcr)"
    by (simp add: emptyTxn_def revision_def coinOutput_def output_sum_def)
  from a zero_output_check_dormant[of sample_params ?a 5]
  have "correctFileContracts sample_params ?a 5 = None" by blast
  moreover from b zero_output_check_dormant[of sample_params ?b 5]
  have "correctFileContractRevisions ?b 5 = None" by blast
  ultimately show ?thesis by simp
qed

text \<open>
  C8. \<open>correctFileContractRevisions\<close> returns the first error among the verdicts on the
  revisions, taken in order, where the verdict on one revision is: the window-start
  violation if the new window start is at most the current height; otherwise the
  window-end violation if the new window end is at most the new window start; otherwise
  the output-sum violation unless the exact sums of the new valid and of the new missed
  proof outputs are equal. The rule takes no tax function, and its verdict does not depend
  on the file contracts of the transaction, where the payouts are.
\<close>

theorem correctFileContractRevisions_verdicts:
  "correctFileContractRevisions t h
     = first_error (map (revision_verdict h) (FileContractRevisions t))
   \<and> (correctFileContractRevisions t h = None \<longleftrightarrow>
        (\<forall>fcr\<in>set (FileContractRevisions t).
           h < fcr_NewWindowStart fcr \<and> fcr_NewWindowStart fcr < fcr_NewWindowEnd fcr
           \<and> output_sum (fcr_NewValidProofOutputs fcr)
               = output_sum (fcr_NewMissedProofOutputs fcr)))
   \<and> correctFileContractRevisions (t\<lparr>FileContracts := fcs\<rparr>) h
       = correctFileContractRevisions t h"
  by (simp add: correctFileContractRevisions_def correctFileContractRevisions_loop_eq
      first_error_None_iff revision_verdict_None_iff)

text \<open>
  Outputs 25 + 15 against 40 pass; against 39 they are an output-sum violation; a window
  that ends where it starts, or starts at the current height, is a window violation.
\<close>

theorem correctFileContractRevisions_verdicts_witness:
  "correctFileContractRevisions
     (emptyTxn\<lparr>FileContractRevisions := [revision 7 10 20 [25, 15] [40]]\<rparr>) 5 = None
   \<and> correctFileContractRevisions
     (emptyTxn\<lparr>FileContractRevisions := [revision 7 10 20 [25, 15] [39]]\<rparr>) 5
       = Some ErrFileContractOutputSumViolation
   \<and> correctFileContractRevisions
     (emptyTxn\<lparr>FileContractRevisions := [revision 7 10 10 [25, 15] [40]]\<rparr>) 5
       = Some ErrFileContractWindowEndViolation
   \<and> correctFileContractRevisions
     (emptyTxn\<lparr>FileContractRevisions := [revision 7 5 10 [25, 15] [40]]\<rparr>) 5
       = Some ErrFileContractWindowStartViolation"
proof -
  let ?ok = "emptyTxn\<lparr>FileContractRevisions := [revision 7 10 20 [25, 15] [40]]\<rparr>"
  have "\<forall>fcr\<in>set (FileContractRevisions ?ok).
           5 < fcr_NewWindowStart fcr \<and> fcr_NewWindowStart fcr < fcr_NewWindowEnd fcr
           \<and> output_sum (fcr_NewValidProofOutputs fcr) = output_sum (fcr_NewMissedProofOutputs fcr)"
    by (simp add: emptyTxn_def revision_def coinOutput_def output_sum_def)
  with correctFileContractRevisions_verdicts[of ?ok 5]
  have a: "correctFileContractRevisions ?ok 5 = None" by blast
  have b: "correctFileContractRevisions
     (emptyTxn\<lparr>FileContractRevisions := [revision 7 10 20 [25, 15] [39]]\<rparr>) 5
       = Some ErrFileContractOutputSumViolation"
    by (simp add: correctFileContractRevisions_verdicts emptyTxn_def revision_def coinOutput_def
        output_sum_def revision_verdict_def)
  have c: "correctFileContractRevisions
     (emptyTxn\<lparr>FileContractRevisions := [revision 7 10 10 [25, 15] [40]]\<rparr>) 5
       = Some ErrFileContractWindowEndViolation"
    by (simp add: correctFileContractRevisions_verdicts emptyTxn_def revision_def coinOutput_def
        output_sum_def revision_verdict_def)
  have d: "correctFileContractRevisions
     (emptyTxn\<lparr>FileContractRevisions := [revision 7 5 10 [25, 15] [40]]\<rparr>) 5
       = Some ErrFileContractWindowStartViolation"
    by (simp add: correctFileContractRevisions_verdicts emptyTxn_def revision_def coinOutput_def
        output_sum_def revision_verdict_def)
  from a b c d show ?thesis by simp
qed

subsection \<open>Size\<close>

text \<open>
  C4. \<open>fitsInABlock\<close> succeeds if and only if the encoded size is at most
  \<open>BlockSizeLimit - 5000\<close> and, from \<open>OakHardforkBlock\<close> on, also at most
  \<open>OakHardforkTxnSizeLimit\<close>; when it fails the error is \<open>ErrTransactionTooLarge\<close>. A
  size of exactly \<open>BlockSizeLimit - 5000\<close> passes below the hardfork height, and one byte
  more fails at every height.
\<close>

theorem fitsInABlock_bounds:
  "(fitsInABlock p t h = None \<longleftrightarrow>
      MarshalTurtleDexSize p t \<le> BlockSizeLimit p - 5000
      \<and> (OakHardforkBlock p \<le> h \<longrightarrow> MarshalTurtleDexSize p t \<le> OakHardforkTxnSizeLimit p))
   \<and> (fitsInABlock p t h \<noteq> None \<longrightarrow> fitsInABlock p t h = Some ErrTransactionTooLarge)
   \<and> (MarshalTurtleDexSize p t = BlockSizeLimit p - 5000 \<and> h < OakHardforkBlock p
        \<longrightarrow> fitsInABlock p t h = None)
   \<and> (MarshalTurtleDexSize p t = BlockSizeLimit p - 5000 + 1
        \<longrightarrow> fitsInABlock p t h = Some ErrTransactionTooLarge)"
  by (auto simp: fitsInABlock_def Let_def not_le)

text \<open>
  With a block size limit of 2000000: 1995000 bytes pass and 1995001 fail just below the
  hardfork height; at the hardfork height 64000 bytes pass and 64001 fail.
\<close>

theorem fitsInABlock_bounds_witness:
  "fitsInABlock (sample_params\<lparr>MarshalTurtleDexSize := \<lambda>t. 1995000\<rparr>) emptyTxn 134999 = None
   \<and> fitsInABlock (sample_params\<lparr>MarshalTurtleDexSize := \<lambda>t. 1995001\<rparr>) emptyTxn 134999
       = Some ErrTransactionTooLarge
   \<and> fitsInABlock (sample_params\<lparr>MarshalTurtleDexSize := \<lambda>t. 64000\<rparr>) emptyTxn 135000 = None
   \<and> fitsInABlock (sample_params\<lparr>MarshalTurtleDexSize := \<lambda>t. 64001\<rparr>) emptyTxn 135000
       = Some ErrTransactionTooLarge"
proof -
  let ?p = "\<lambda>n. sample_params\<lparr>MarshalTurtleDexSize := \<lambda>t. n\<rparr>"
  have a: "MarshalTurtleDexSize (?p 1995000) emptyTxn = BlockSizeLimit (?p 1995000) - 5000
           \<and> (134999 :: BlockHeight) < OakHardforkBlock (?p 1995000)"
    by (simp add: sample_params_def)
  have b: "MarshalTurtleDexSize (?p 1995001) emptyTxn = BlockSizeLimit (?p 1995001) - 5000 + 1"
    by (simp add: sample_params_def)
  have c: "MarshalTurtleDexSize (?p 64000) emptyTxn \<le> BlockSizeLimit (?p 64000) - 5000
      \<and> (OakHardforkBlock (?p 64000) \<le> 135000 \<longrightarrow>
           MarshalTurtleDexSize (?p 64000) emptyTxn \<le> OakHardforkTxnSizeLimit (?p 64000))"
    by (simp add: sample_params_def)
  have d: "\<not> (MarshalTurtleDexSize (?p 64001) emptyTxn \<le> BlockSizeLimit (?p 64001) - 5000
      \<and> (OakHardforkBlock (?p 64001) \<le> 135000 \<longrightarrow>
           MarshalTurtleDexSize (?p 64001) emptyTxn \<le> OakHardforkTxnSizeLimit (?p 64001)))"
    by (simp add: sample_params_def)
  from a fitsInABlock_bounds[of "?p 1995000" emptyTxn 134999]
  have 1: "fitsInABlock (?p 1995000) emptyTxn 134999 = None" by blast
  from b fitsInABlock_bounds[of "?p 1995001" emptyTxn 134999]
  have 2: "fitsInABlock (?p 1995001) emptyTxn 134999 = Some ErrTransactionTooLarge" by blast
  from c fitsInABlock_bounds[of "?p 64000" emptyTxn 135000]
  have 3: "fitsInABlock (?p 64000) emptyTxn 135000 = None" by blast
  from d fitsInABlock_bounds[of "?p 64001" emptyTxn 135000]
  have 4: "fitsInABlock (?p 64001) emptyTxn 135000 = Some ErrTransactionTooLarge" by blast
  from 1 2 3 4 show ?thesis by simp
qed

subsection \<open>Arbitrary data\<close>

lemma HasPrefix_iff: "HasPrefix s pre \<longleftrightarrow> (\<exists>rest. s = pre @ rest)"
proof
  assume "HasPrefix s pre"
  then have "s = pre @ drop (length pre) s"
    by (metis HasPrefix_def append_take_drop_id)
  then show "\<exists>rest. s = pre @ rest" ..
next
  assume "\<exists>rest. s = pre @ rest"
  then show "HasPrefix s pre" by (auto simp: HasPrefix_def)
qed

lemma correctArbitraryData_loop_eq:
  "correctArbitraryData_loop p arbs = first_error (map (arbitraryData_verdict p) arbs)"
  by (induction arbs) (auto simp: arbitraryData_verdict_def SpecifierLen_def split: option.splits)

text \<open>
  C5. Below \<open>FoundationHardforkHeight\<close> the rule \<open>correctArbitraryData\<close> succeeds whatever
  the arbitrary data. From that height on it returns the first error among the verdicts on
  the entries, taken in order, where an entry that begins with the Foundation specifier
  gives \<open>ErrInvalidFoundationUpdateEncoding\<close> if its remainder does not decode and
  \<open>ErrUninitializedFoundationUpdate\<close> if the decoded update has a void primary or failsafe
  address. Entries without the specifier never cause an error.
\<close>

theorem correctArbitraryData_verdicts:
  "(h < FoundationHardforkHeight p \<longrightarrow> correctArbitraryData p t h = None)
   \<and> (FoundationHardforkHeight p \<le> h \<longrightarrow>
        correctArbitraryData p t h
          = first_error (map (arbitraryData_verdict p) (ArbitraryData t)))
   \<and> ((\<forall>arb\<in>set (ArbitraryData t). \<not> HasPrefix arb (SpecifierFoundation p))
        \<longrightarrow> correctArbitraryData p t h = None)"
proof -
  have "(\<forall>arb\<in>set (ArbitraryData t). \<not> HasPrefix arb (SpecifierFoundation p))
        \<longrightarrow> first_error (map (arbitraryData_verdict p) (ArbitraryData t)) = None"
    by (simp add: first_error_None_iff arbitraryData_verdict_def)
  then show ?thesis
    by (simp add: correctArbitraryData_def correctArbitraryData_loop_eq not_less)
qed

text \<open>
  The same malformed update passes at height 297999 and fails at 298000; an update with a
  void failsafe address is uninitialized; a well-formed update and entries without the
  specifier (one of them a proper prefix of it) pass.
\<close>

theorem correctArbitraryData_verdicts_witness:
  "correctArbitraryData sample_params (emptyTxn\<lparr>ArbitraryData := [foundationUpdate [1]]\<rparr>) 297999
     = None
   \<and> correctArbitraryData sample_params (emptyTxn\<lparr>ArbitraryData := [foundationUpdate [1]]\<rparr>) 298000
     = Some ErrInvalidFoundationUpdateEncoding
   \<and> correctArbitraryData sample_params
       (emptyTxn\<lparr>ArbitraryData := [[7, 7], foundationUpdate [4, 0]]\<rparr>) 298000
     = Some ErrUninitializedFoundationUpdate
   \<and> correctArbitraryData sample_params
       (emptyTxn\<lparr>ArbitraryData := [[7, 7], foundationUpdate [4, 5]]\<rparr>) 298000
     = None
   \<and> correctArbitraryData sample_params (emptyTxn\<lparr>ArbitraryData := [[7, 7], [102, 111]]\<rparr>) 298000
     = None"
proof -
  let ?bad = "emptyTxn\<lparr>ArbitraryData := [foundationUpdate [1]]\<rparr>"
  let ?void = "emptyTxn\<lparr>ArbitraryData := [[7, 7], foundationUpdate [4, 0]]\<rparr>"
  let ?good = "emptyTxn\<lparr>ArbitraryData := [[7, 7], foundationUpdate [4, 5]]\<rparr>"
  let ?free = "emptyTxn\<lparr>ArbitraryData := [[7, 7], [102, 111]]\<rparr>"
  have lo: "(297999 :: BlockHeight) < FoundationHardforkHeight sample_params"
    by (simp add: sample_params_def)
  have hi: "FoundationHardforkHeight sample_params \<le> (298000 :: BlockHeight)"
    by (simp add: sample_params_def)
  have free: "\<forall>arb\<in>set (ArbitraryData ?free). \<not> HasPrefix arb (SpecifierFoundation sample_params)"
    by (simp add: emptyTxn_def sample_params_def HasPrefix_def)
  from lo correctArbitraryData_verdicts[of 297999 sample_params ?bad]
  have 1: "correctArbitraryData sample_params ?bad 297999 = None" by blast
  from hi correctArbitraryData_verdicts[of 298000 sample_params ?bad]
  have "correctArbitraryData sample_params ?bad 298000
          = first_error (map (arbitraryData_verdict sample_params) (ArbitraryData ?bad))" by blast
  then have 2: "correctArbitraryData sample_params ?bad 298000
          = Some ErrInvalidFoundationUpdateEncoding"
    by (simp add: emptyTxn_def foundationUpdate_def sample_params_def arbitraryData_verdict_def
        HasPrefix_def sample_decode_def)
  from hi correctArbitraryData_verdicts[of 298000 sample_params ?void]
  have "correctArbitraryData sample_params ?void 298000
          = first_error (map (arbitraryData_verdict sample_params) (ArbitraryData ?void))" by blast
  then have 3: "correctArbitraryData sample_params ?void 298000
          = Some ErrUninitializedFoundationUpdate"
    by (simp add: emptyTxn_def foundationUpdate_def sample_params_def arbitraryData_verdict_def
        HasPrefix_def sample_decode_def)
  from hi correctArbitraryData_verdicts[of 298000 sample_params ?good]
  have "correctArbitraryData sample_params ?good 298000
          = first_error (map (arbitraryData_verdict sample_params) (ArbitraryData ?good))" by blast
  then have 4: "correctArbitraryData sample_params ?good 298000 = None"
    by (simp add: emptyTxn_def foundationUpdate_def sample_params_def arbitraryData_verdict_def
        HasPrefix_def sample_decode_def)
  from free correctArbitraryData_verdicts[of 298000 sample_params ?free]
  have 5: "correctArbitraryData sample_params ?free 298000 = None" by blast
  from 1 2 3 4 5 show ?thesis by simp
qed

subsection \<open>Storage proofs\<close>

text \<open>
  C6. \<open>followsStorageProofRules\<close> succeeds when there is no storage proof. With at least
  one storage proof it fails with \<open>ErrStorageProofWithOutputs\<close> if and only if there is a
  coin output, a file contract, a file contract revision or a fund output, and succeeds
  otherwise. Coin inputs, fund inputs, miner fees and arbitrary data have no effect on
  the verdict.
\<close>

theorem followsStorageProofRules_iff:
  "(StorageProofs t = [] \<longrightarrow> followsStorageProofRules t = None)
   \<and> (StorageProofs t \<noteq> [] \<longrightarrow>
        (followsStorageProofRules t = Some ErrStorageProofWithOutputs \<longleftrightarrow>
           TurtleDexcoinOutputs t \<noteq> [] \<or> FileContracts t \<noteq> []
           \<or> FileContractRevisions t \<noteq> [] \<or> TurtleDexfundOutputs t \<noteq> [])
        \<and> (followsStorageProofRules t = None \<longleftrightarrow>
           TurtleDexcoinOutputs t = [] \<and> FileContracts t = []
           \<and> FileContractRevisions t = [] \<and> TurtleDexfundOutputs t = []))
   \<and> followsStorageProofRules
        (t\<lparr>TurtleDexcoinInputs := ci, TurtleDexfundInputs := fi, MinerFees := mf,
           ArbitraryData := ad\<rparr>)
       = followsStorageProofRules t"
  by (simp add: followsStorageProofRules_def)

text \<open>
  A storage proof with inputs, a miner fee and arbitrary data passes; a storage proof with
  one coin output fails; the coin output without the storage proof passes.
\<close>

theorem followsStorageProofRules_iff_witness:
  "followsStorageProofRules
     (emptyTxn\<lparr>StorageProofs := [storageProof 1], TurtleDexcoinInputs := [coinInput 2],
               TurtleDexfundInputs := [fundInput 3], MinerFees := [4], ArbitraryData := [[5]]\<rparr>)
     = None
   \<and> followsStorageProofRules
     (emptyTxn\<lparr>StorageProofs := [storageProof 1], TurtleDexcoinOutputs := [coinOutput 7]\<rparr>)
     = Some ErrStorageProofWithOutputs
   \<and> followsStorageProofRules (emptyTxn\<lparr>TurtleDexcoinOutputs := [coinOutput 7]\<rparr>) = None"
proof -
  let ?alone = "emptyTxn\<lparr>StorageProofs := [storageProof 1], TurtleDexcoinInputs := [coinInput 2],
               TurtleDexfundInputs := [fundInput 3], MinerFees := [4], ArbitraryData := [[5]]\<rparr>"
  let ?mixed = "emptyTxn\<lparr>StorageProofs := [storageProof 1], TurtleDexcoinOutputs := [coinOutput 7]\<rparr>"
  let ?none = "emptyTxn\<lparr>TurtleDexcoinOutputs := [coinOutput 7]\<rparr>"
  have a: "StorageProofs ?alone \<noteq> [] \<and> TurtleDexcoinOutputs ?alone = [] \<and> FileContracts ?alone = []
           \<and> FileContractRevisions ?alone = [] \<and> TurtleDexfundOutputs ?alone = []"
    by (simp add: emptyTxn_def)
  have m: "StorageProofs ?mixed \<noteq> [] \<and> TurtleDexcoinOutputs ?mixed \<noteq> []"
    by (simp add: emptyTxn_def)
  have n: "StorageProofs ?none = []" by (simp add: emptyTxn_def)
  from a followsStorageProofRules_iff[of ?alone]
  have 1: "followsStorageProofRules ?alone = None" by blast
  from m followsStorageProofRules_iff[of ?mixed]
  have 2: "followsStorageProofRules ?mixed = Some ErrStorageProofWithOutputs" by blast
  from n followsStorageProofRules_iff[of ?none]
  have 3: "followsStorageProofRules ?none = None" by blast
  from 1 2 3 show ?thesis by simp
qed

subsection \<open>No repeats\<close>

lemma noRepeats_loop_fresh:
  "distinct ids \<Longrightarrow> set ids \<inter> dom seen = {} \<Longrightarrow>
     \<exists>seen'. noRepeats_loop seen ids = Inr seen' \<and> dom seen' = dom seen \<union> set ids"
proof (induction ids arbitrary: seen)
  case Nil
  then show ?case by simp
next
  case (Cons parentID rest)
  from Cons.prems have fresh: "seen parentID = None" by auto
  from Cons.prems have "distinct rest" "set rest \<inter> dom (seen(parentID \<mapsto> ())) = {}" by auto
  from Cons.IH[OF this] obtain seen' where
    "noRepeats_loop (seen(parentID \<mapsto> ())) rest = Inr seen'"
    "dom seen' = dom (seen(parentID \<mapsto> ())) \<union> set rest" by blast
  with fresh show ?case by auto
qed

lemma noRepeats_loop_repeat:
  "\<not> (distinct ids \<and> set ids \<inter> dom seen = {}) \<Longrightarrow> noRepeats_loop seen ids = Inl ErrDoubleSpend"
proof (induction ids arbitrary: seen)
  case Nil
  then show ?case by simp
next
  case (Cons parentID rest)
  show ?case
  proof (cases "seen parentID")
    case (Some u)
    then show ?thesis by simp
  next
    case None
    with Cons.prems have "\<not> (distinct rest \<and> set rest \<inter> dom (seen(parentID \<mapsto> ())) = {})"
      by (auto simp: domIff)
    then have ih: "noRepeats_loop (seen(parentID \<mapsto> ())) rest = Inl ErrDoubleSpend"
      by (rule Cons.IH)
    have "noRepeats_loop seen (parentID # rest) = noRepeats_loop (seen(parentID \<mapsto> ())) rest"
      using None by simp
    with ih show ?thesis by (simp only:)
  qed
qed

lemma noRepeats_loop_Inl: "noRepeats_loop seen ids = Inl e \<Longrightarrow> e = ErrDoubleSpend"
  using noRepeats_loop_fresh[of ids seen] noRepeats_loop_repeat[of ids seen]
  by (cases "distinct ids \<and> set ids \<inter> dom seen = {}") auto

lemma noRepeats_cases:
  "noRepeats t =
     (if distinct (map sci_ParentID (TurtleDexcoinInputs t))
         \<and> distinct (map sp_ParentID (StorageProofs t) @ map fcr_ParentID (FileContractRevisions t))
         \<and> distinct (map sfi_ParentID (TurtleDexfundInputs t))
      then None else Some ErrDoubleSpend)"
proof -
  let ?ci = "map sci_ParentID (TurtleDexcoinInputs t)"
  let ?sp = "map sp_ParentID (StorageProofs t)"
  let ?fcr = "map fcr_ParentID (FileContractRevisions t)"
  let ?fi = "map sfi_ParentID (TurtleDexfundInputs t)"
  let ?all = "distinct ?ci \<and> distinct (?sp @ ?fcr) \<and> distinct ?fi"
  have bad: "noRepeats t = Some ErrDoubleSpend \<Longrightarrow> \<not> ?all \<Longrightarrow> ?thesis"
    by (simp only: if_False)
  show ?thesis
  proof (cases "distinct ?ci")
    case False
    then have "noRepeats_loop Map.empty ?ci = Inl ErrDoubleSpend"
      by (simp add: noRepeats_loop_repeat)
    then have "noRepeats t = Some ErrDoubleSpend" by (simp add: noRepeats_def)
    moreover from False have "\<not> ?all" by blast
    ultimately show ?thesis by (rule bad)
  next
    case ci: True
    then obtain m1 where m1: "noRepeats_loop Map.empty ?ci = Inr m1"
      using noRepeats_loop_fresh[of ?ci Map.empty] by auto
    show ?thesis
    proof (cases "distinct ?sp")
      case False
      then have "noRepeats_loop Map.empty ?sp = Inl ErrDoubleSpend"
        by (simp add: noRepeats_loop_repeat)
      with m1 have "noRepeats t = Some ErrDoubleSpend" by (simp add: noRepeats_def)
      moreover from False have "\<not> ?all" by simp
      ultimately show ?thesis by (rule bad)
    next
      case sp: True
      then obtain m2 where m2: "noRepeats_loop Map.empty ?sp = Inr m2" "dom m2 = set ?sp"
        using noRepeats_loop_fresh[of ?sp Map.empty] by auto
      show ?thesis
      proof (cases "distinct ?fcr \<and> set ?fcr \<inter> dom m2 = {}")
        case False
        then have "noRepeats_loop m2 ?fcr = Inl ErrDoubleSpend"
          by (rule noRepeats_loop_repeat)
        with m1 m2(1) have "noRepeats t = Some ErrDoubleSpend" by (simp add: noRepeats_def)
        moreover from False m2(2) have "\<not> distinct (?sp @ ?fcr)" by auto
        then have "\<not> ?all" by blast
        ultimately show ?thesis by (rule bad)
      next
        case fcr: True
        then obtain m3 where m3: "noRepeats_loop m2 ?fcr = Inr m3"
          using noRepeats_loop_fresh[of ?fcr m2] by auto
        from fcr sp m2(2) have d: "distinct (?sp @ ?fcr)" by auto
        show ?thesis
        proof (cases "distinct ?fi")
          case False
          then have "noRepeats_loop Map.empty ?fi = Inl ErrDoubleSpend"
            by (simp add: noRepeats_loop_repeat)
          with m1 m2(1) m3 have "noRepeats t = Some ErrDoubleSpend" by (simp add: noRepeats_def)
          moreover from False have "\<not> ?all" by blast
          ultimately show ?thesis by (rule bad)
        next
          case True
          then obtain m4 where "noRepeats_loop Map.empty ?fi = Inr m4"
            using noRepeats_loop_fresh[of ?fi Map.empty] by auto
          with m1 m2(1) m3 have "noRepeats t = None" by (simp add: noRepeats_def)
          moreover from True ci d have "?all" by blast
          ultimately show ?thesis by simp
        qed
      qed
    qed
  qed
qed

text \<open>
  C7. \<open>noRepeats\<close> fails with \<open>ErrDoubleSpend\<close> if and only if a parent ID occurs twice
  among the coin inputs, or twice among the fund inputs, or a file contract ID occurs
  twice in the storage proofs and file contract revisions taken together; it succeeds if
  and only if the IDs of each of the three groups are distinct.
\<close>

theorem noRepeats_iff:
  "(noRepeats t = Some ErrDoubleSpend \<longleftrightarrow>
      \<not> distinct (map sci_ParentID (TurtleDexcoinInputs t))
      \<or> \<not> distinct (map sfi_ParentID (TurtleDexfundInputs t))
      \<or> \<not> distinct (map sp_ParentID (StorageProofs t)
                      @ map fcr_ParentID (FileContractRevisions t)))
   \<and> (noRepeats t = None \<longleftrightarrow>
      distinct (map sci_ParentID (TurtleDexcoinInputs t))
      \<and> distinct (map sfi_ParentID (TurtleDexfundInputs t))
      \<and> distinct (map sp_ParentID (StorageProofs t)
                    @ map fcr_ParentID (FileContractRevisions t)))"
  by (auto simp: noRepeats_cases)

text \<open>
  A coin output spent twice, a fund output spent twice, and a storage proof with a revision
  of the same contract are double spends; the same two IDs used once in each group are not.
\<close>

theorem noRepeats_iff_witness:
  "noRepeats (emptyTxn\<lparr>TurtleDexcoinInputs := [coinInput 1, coinInput 2, coinInput 1]\<rparr>)
     = Some ErrDoubleSpend
   \<and> noRepeats (emptyTxn\<lparr>TurtleDexfundInputs := [fundInput 3, fundInput 3]\<rparr>)
     = Some ErrDoubleSpend
   \<and> noRepeats (emptyTxn\<lparr>StorageProofs := [storageProof 4],
                          FileContractRevisions := [revision 5 10 20 [] [], revision 4 10 20 [] []]\<rparr>)
     = Some ErrDoubleSpend
   \<and> noRepeats (emptyTxn\<lparr>TurtleDexcoinInputs := [coinInput 1, coinInput 2],
                          TurtleDexfundInputs := [fundInput 1, fundInput 2],
                          StorageProofs := [storageProof 1],
                          FileContractRevisions := [revision 2 10 20 [] []]\<rparr>)
     = None"
proof -
  let ?a = "emptyTxn\<lparr>TurtleDexcoinInputs := [coinInput 1, coinInput 2, coinInput 1]\<rparr>"
  let ?b = "emptyTxn\<lparr>TurtleDexfundInputs := [fundInput 3, fundInput 3]\<rparr>"
  let ?c = "emptyTxn\<lparr>StorageProofs := [storageProof 4],
                          FileContractRevisions := [revision 5 10 20 [] [], revision 4 10 20 [] []]\<rparr>"
  let ?d = "emptyTxn\<lparr>TurtleDexcoinInputs := [coinInput 1, coinInput 2],
                          TurtleDexfundInputs := [fundInput 1, fundInput 2],
                          StorageProofs := [storageProof 1],
                          FileContractRevisions := [revision 2 10 20 [] []]\<rparr>"
  have a: "\<not> distinct (map sci_ParentID (TurtleDexcoinInputs ?a))"
    by (simp add: emptyTxn_def coinInput_def)
  have b: "\<not> distinct (map sfi_ParentID (TurtleDexfundInputs ?b))"
    by (simp add: emptyTxn_def fundInput_def)
  have c: "\<not> distinct (map sp_ParentID (StorageProofs ?c) @ map fcr_ParentID (FileContractRevisions ?c))"
    by (simp add: emptyTxn_def storageProof_def revision_def)
  have d: "distinct (map sci_ParentID (TurtleDexcoinInputs ?d))
      \<and> distinct (map sfi_ParentID (TurtleDexfundInputs ?d))
      \<and> distinct (map sp_ParentID (StorageProofs ?d) @ map fcr_ParentID (FileContractRevisions ?d))"
    by (simp add: emptyTxn_def coinInput_def fundInput_def storageProof_def revision_def)
  from a noRepeats_iff[of ?a] have 1: "noRepeats ?a = Some ErrDoubleSpend" by blast
  from b noRepeats_iff[of ?b] have 2: "noRepeats ?b = Some ErrDoubleSpend" by blast
  from c noRepeats_iff[of ?c] have 3: "noRepeats ?c = Some ErrDoubleSpend" by blast
  from d noRepeats_iff[of ?d] have 4: "noRepeats ?d = None" by blast
  from 1 2 3 4 show ?thesis by simp
qed

subsection \<open>Minimum values\<close>

lemma minimumValues_outputs_cases:
  "minimumValues_outputs scos =
     (if \<forall>sco\<in>set scos. sco_Value sco \<noteq> 0 then None else Some ErrZeroOutput)"
  by (induction scos) auto

lemma minimumValues_contracts_cases:
  "minimumValues_contracts fcs =
     (if \<forall>fc\<in>set fcs. fc_Payout fc \<noteq> 0 then None else Some ErrZeroOutput)"
  by (induction fcs) auto

lemma minimumValues_fees_cases:
  "minimumValues_fees fees = (if \<forall>fee\<in>set fees. fee \<noteq> 0 then None else Some ErrZeroMinerFee)"
  by (induction fees) auto

lemma minimumValues_fundOutputs_None:
  "minimumValues_fundOutputs sfos = None \<longleftrightarrow>
     (\<forall>sfo\<in>set sfos. sfo_Value sfo \<noteq> 0 \<and> sfo_ClaimStart sfo = 0)"
  by (induction sfos) auto


lemma minimumValues_fundOutputs_value:
  "\<forall>sfo\<in>set sfos. sfo_ClaimStart sfo = 0 \<Longrightarrow> \<exists>sfo\<in>set sfos. sfo_Value sfo = 0 \<Longrightarrow>
     minimumValues_fundOutputs sfos = Some ErrZeroOutput"
  by (induction sfos) auto

lemma minimumValues_fundOutputs_claim:
  "\<forall>sfo\<in>set sfos. sfo_Value sfo \<noteq> 0 \<Longrightarrow> \<exists>sfo\<in>set sfos. sfo_ClaimStart sfo \<noteq> 0 \<Longrightarrow>
     minimumValues_fundOutputs sfos = Some ErrNonZeroClaimStart"
  by (induction sfos) auto

lemma minimumValues_outputs_None:
  "minimumValues_outputs scos = None \<longleftrightarrow> (\<forall>sco\<in>set scos. sco_Value sco \<noteq> 0)"
  by (simp add: minimumValues_outputs_cases)

lemma minimumValues_contracts_None:
  "minimumValues_contracts fcs = None \<longleftrightarrow> (\<forall>fc\<in>set fcs. fc_Payout fc \<noteq> 0)"
  by (simp add: minimumValues_contracts_cases)

lemma minimumValues_fees_None:
  "minimumValues_fees fees = None \<longleftrightarrow> (\<forall>fee\<in>set fees. fee \<noteq> 0)"
  by (simp add: minimumValues_fees_cases)

lemma followsMinimumValues_None_loops:
  "followsMinimumValues t = None \<longleftrightarrow>
     minimumValues_outputs (TurtleDexcoinOutputs t) = None
     \<and> minimumValues_contracts (FileContracts t) = None
     \<and> minimumValues_fundOutputs (TurtleDexfundOutputs t) = None
     \<and> minimumValues_fees (MinerFees t) = None"
  by (simp add: followsMinimumValues_def split: option.splits)

lemma followsMinimumValues_None:
  "followsMinimumValues t = None \<longleftrightarrow>
     (\<forall>sco\<in>set (TurtleDexcoinOutputs t). sco_Value sco \<noteq> 0)
     \<and> (\<forall>fc\<in>set (FileContracts t). fc_Payout fc \<noteq> 0)
     \<and> (\<forall>sfo\<in>set (TurtleDexfundOutputs t). sfo_Value sfo \<noteq> 0 \<and> sfo_ClaimStart sfo = 0)
     \<and> (\<forall>fee\<in>set (MinerFees t). fee \<noteq> 0)"
  by (simp only: followsMinimumValues_None_loops minimumValues_outputs_None
      minimumValues_contracts_None minimumValues_fundOutputs_None minimumValues_fees_None)



lemma first_error_append:
  "first_error (xs @ ys) = (case first_error xs of Some e \<Rightarrow> Some e | None \<Rightarrow> first_error ys)"
  by (induction xs rule: first_error.induct) simp_all

lemma minimumValues_outputs_scan:
  "minimumValues_outputs scos = first_error (map coinOutput_verdict scos)"
  by (induction scos) (simp_all add: coinOutput_verdict_def)

lemma minimumValues_contracts_scan:
  "minimumValues_contracts fcs = first_error (map payout_verdict fcs)"
  by (induction fcs) (simp_all add: payout_verdict_def)

lemma minimumValues_fundOutputs_scan:
  "minimumValues_fundOutputs sfos = first_error (map fundOutput_verdict sfos)"
  by (induction sfos) (simp_all add: fundOutput_verdict_def)

lemma minimumValues_fees_scan:
  "minimumValues_fees fees = first_error (map minerFee_verdict fees)"
  by (induction fees) (simp_all add: minerFee_verdict_def)

lemma followsMinimumValues_scan:
  "followsMinimumValues t = first_error (minimumValues_scan t)"
  unfolding followsMinimumValues_def minimumValues_scan_def first_error_append
    minimumValues_outputs_scan minimumValues_contracts_scan minimumValues_fundOutputs_scan
    minimumValues_fees_scan
  by (simp split: option.splits)

text \<open>
  C9, as the code has it. \<open>followsMinimumValues\<close> succeeds if and only if every coin
  output value, every file contract payout, every fund output value and every miner fee is
  non-zero and every fund output has a zero claim start. Otherwise it returns the error of
  the first violation in the order of its scan: first the coin outputs (a zero value gives
  \<open>ErrZeroOutput\<close>), then the file contract payouts (a zero payout gives
  \<open>ErrZeroOutput\<close>), then the fund outputs one by one (on each, a non-zero claim start
  gives \<open>ErrNonZeroClaimStart\<close>, and otherwise a zero value gives \<open>ErrZeroOutput\<close>), then
  the miner fees (a zero fee gives \<open>ErrZeroMinerFee\<close>).
\<close>

theorem followsMinimumValues_scan_order:
  "followsMinimumValues t = first_error (minimumValues_scan t)
   \<and> (followsMinimumValues t = None \<longleftrightarrow>
        (\<forall>sco\<in>set (TurtleDexcoinOutputs t). sco_Value sco \<noteq> 0)
        \<and> (\<forall>fc\<in>set (FileContracts t). fc_Payout fc \<noteq> 0)
        \<and> (\<forall>sfo\<in>set (TurtleDexfundOutputs t). sfo_Value sfo \<noteq> 0 \<and> sfo_ClaimStart sfo = 0)
        \<and> (\<forall>fee\<in>set (MinerFees t). fee \<noteq> 0))"
  using followsMinimumValues_scan[of t] followsMinimumValues_None[of t] by (rule conjI)

text \<open>
  A transaction that meets every minimum passes. A transaction with a zero coin output
  after a good one, a zero payout, a fund output with a non-zero claim start and a zero
  miner fee gets the error of the coin output; without the coin outputs and the contract
  it gets the error of the claim start.
\<close>

theorem followsMinimumValues_scan_order_witness:
  "followsMinimumValues
     (emptyTxn\<lparr>TurtleDexcoinOutputs := [coinOutput 1], FileContracts := [fileContract 10 20 100 [] []],
               TurtleDexfundOutputs := [fundOutput 5 0], MinerFees := [1]\<rparr>) = None
   \<and> followsMinimumValues
     (emptyTxn\<lparr>TurtleDexcoinOutputs := [coinOutput 1, coinOutput 0],
               FileContracts := [fileContract 10 20 0 [] []],
               TurtleDexfundOutputs := [fundOutput 5 3], MinerFees := [0]\<rparr>) = Some ErrZeroOutput
   \<and> followsMinimumValues
     (emptyTxn\<lparr>TurtleDexfundOutputs := [fundOutput 5 0, fundOutput 0 3, fundOutput 0 0],
               MinerFees := [0]\<rparr>) = Some ErrNonZeroClaimStart
   \<and> followsMinimumValues
     (emptyTxn\<lparr>TurtleDexfundOutputs := [fundOutput 5 0, fundOutput 0 0, fundOutput 0 3],
               MinerFees := [0]\<rparr>) = Some ErrZeroOutput
   \<and> followsMinimumValues
     (emptyTxn\<lparr>TurtleDexfundOutputs := [fundOutput 5 0], MinerFees := [2, 0]\<rparr>)
       = Some ErrZeroMinerFee"
proof -
  let ?ok = "emptyTxn\<lparr>TurtleDexcoinOutputs := [coinOutput 1],
               FileContracts := [fileContract 10 20 100 [] []],
               TurtleDexfundOutputs := [fundOutput 5 0], MinerFees := [1]\<rparr>"
  let ?coin = "emptyTxn\<lparr>TurtleDexcoinOutputs := [coinOutput 1, coinOutput 0],
               FileContracts := [fileContract 10 20 0 [] []],
               TurtleDexfundOutputs := [fundOutput 5 3], MinerFees := [0]\<rparr>"
  let ?claim = "emptyTxn\<lparr>TurtleDexfundOutputs := [fundOutput 5 0, fundOutput 0 3, fundOutput 0 0],
               MinerFees := [0]\<rparr>"
  let ?fund = "emptyTxn\<lparr>TurtleDexfundOutputs := [fundOutput 5 0, fundOutput 0 0, fundOutput 0 3],
               MinerFees := [0]\<rparr>"
  let ?fee = "emptyTxn\<lparr>TurtleDexfundOutputs := [fundOutput 5 0], MinerFees := [2, 0]\<rparr>"
  have ok: "(\<forall>sco\<in>set (TurtleDexcoinOutputs ?ok). sco_Value sco \<noteq> 0)
      \<and> (\<forall>fc\<in>set (FileContracts ?ok). fc_Payout fc \<noteq> 0)
      \<and> (\<forall>sfo\<in>set (TurtleDexfundOutputs ?ok). sfo_Value sfo \<noteq> 0 \<and> sfo_ClaimStart sfo = 0)
      \<and> (\<forall>fee\<in>set (MinerFees ?ok). fee \<noteq> 0)"
    by (simp add: emptyTxn_def coinOutput_def fileContract_def fundOutput_def)
  have 1: "followsMinimumValues ?ok = None"
    by (rule followsMinimumValues_scan_order[of ?ok, THEN conjunct2, THEN iffD2, OF ok])
  have "first_error (minimumValues_scan ?coin) = Some ErrZeroOutput"
    by (simp add: minimumValues_scan_def emptyTxn_def coinOutput_def fileContract_def
        fundOutput_def coinOutput_verdict_def)
  with followsMinimumValues_scan_order[of ?coin, THEN conjunct1]
  have 2: "followsMinimumValues ?coin = Some ErrZeroOutput" by (simp only:)
  have "first_error (minimumValues_scan ?claim) = Some ErrNonZeroClaimStart"
    by (simp add: minimumValues_scan_def emptyTxn_def fundOutput_def fundOutput_verdict_def)
  with followsMinimumValues_scan_order[of ?claim, THEN conjunct1]
  have 3: "followsMinimumValues ?claim = Some ErrNonZeroClaimStart" by (simp only:)
  have "first_error (minimumValues_scan ?fund) = Some ErrZeroOutput"
    by (simp add: minimumValues_scan_def emptyTxn_def fundOutput_def fundOutput_verdict_def)
  with followsMinimumValues_scan_order[of ?fund, THEN conjunct1]
  have 4: "followsMinimumValues ?fund = Some ErrZeroOutput" by (simp only:)
  have "first_error (minimumValues_scan ?fee) = Some ErrZeroMinerFee"
    by (simp add: minimumValues_scan_def emptyTxn_def fundOutput_def fundOutput_verdict_def
        minerFee_verdict_def)
  with followsMinimumValues_scan_order[of ?fee, THEN conjunct1]
  have 5: "followsMinimumValues ?fee = Some ErrZeroMinerFee" by (simp only:)
  from 1 2 3 4 5 show ?thesis by blast
qed

text \<open>
  C9, as the specification states it, fails: the fund output of the sample transaction has
  value zero, and the verdict is not \<open>ErrZeroOutput\<close> but \<open>ErrNonZeroClaimStart\<close>, because
  the claim start of a fund output is tested before its value.
\<close>

theorem followsMinimumValues_zero_value_counterexample:
  "TurtleDexfundOutputs txn_zero_fund_value_with_claim = [fundOutput 0 3]
   \<and> sfo_Value (fundOutput 0 3) = 0
   \<and> followsMinimumValues txn_zero_fund_value_with_claim = Some ErrNonZeroClaimStart
   \<and> followsMinimumValues txn_zero_fund_value_with_claim \<noteq> Some ErrZeroOutput"
  by (simp add: txn_zero_fund_value_with_claim_def emptyTxn_def fundOutput_def
      followsMinimumValues_def)

subsection \<open>Revision numbers\<close>





























end
